theory Spec2Isabelle
  imports Main "HOL-Library.AList"
begin

section \<open>The store of main.py: users, groups, activities\<close>

text \<open>
  The class \<open>Database\<close> of main.py keeps three Python dictionaries. Each stored entity is
  itself a dictionary with a fixed set of keys, so it becomes a record; a field whose
  name is used by more than one entity carries the entity's name as a prefix
  (\<open>user_name\<close> is the key \<open>"name"\<close> of a user, \<open>group_name\<close> the key \<open>"name"\<close> of a group,
  \<open>user_groups\<close> the key \<open>"groups"\<close> of a user, and so on).

  \<open>users\<close> is never iterated over, so it is a map. \<open>groups\<close> and \<open>activities\<close> are iterated
  over in insertion order (\<open>get_all_groups\<close>, \<open>get_user_activities\<close>), so they are
  association lists: \<open>AList.update\<close> replaces the value of a key that is present in place
  and appends a new key at the end, as a Python dictionary assignment does.

  A reading of \<open>datetime.now()\<close> is a parameter \<open>now\<close> of the operation that takes it; one
  operation uses one reading for all its time stamps. The list \<open>Database.messages\<close> is
  never read or written after its initialisation and is left out.
\<close>

type_synonym user_id = int
type_synonym group_id = int
type_synonym timestamp = nat

text \<open>
  A Python \<open>str\<close> is a sequence of Unicode code points, so a text of the program (a
  message text, the data of a button, a name, a role) is a list of natural numbers. \<open>str\<close>
  gives the text of an ASCII literal of the source. The keys of the dictionaries are
  literals of the source throughout and stay Isabelle strings.
\<close>

type_synonym pystr = "nat list"

definition str :: "string \<Rightarrow> pystr" where
  "str s = map of_char s"

record group =
  group_id :: group_id
  group_name :: pystr
  theme :: pystr
  group_description :: pystr
  created_by :: user_id
  members :: "user_id list"
  max_members :: int
  group_created_at :: timestamp
  group_last_active :: timestamp
  ai_mediator_enabled :: bool

text \<open>
  The values that a user's \<open>"profile"\<close> dictionary holds under its string keys.
\<close>

datatype pyval =
    PNone
  | PInt int
  | PStr pystr
  | PList "pystr list"
  | PDict "(string \<times> pyval) list"

record user =
  user_id :: user_id
  user_name :: pystr
  role :: pystr
  user_groups :: "group_id list"
  user_created_at :: timestamp
  user_last_active :: timestamp
  profile :: "(string \<times> pyval) list option"

record activity =
  activity_id :: pystr
  activity_group_id :: group_id
  activity_type :: pystr
  title :: pystr
  activity_description :: pystr
  activity_created_by :: user_id
  participants :: "user_id list"
  status :: pystr
  scheduled_time :: timestamp
  duration :: int
  activity_created_at :: timestamp
  ai_guidance_enabled :: bool

record database =
  users :: "user_id \<rightharpoonup> user"
  groups :: "(group_id \<times> group) list"
  activities :: "(pystr \<times> activity) list"

definition init_database :: database where
  "init_database = \<lparr>users = Map.empty, groups = [], activities = []\<rparr>"

subsection \<open>Database.create_user\<close>

text \<open>\<open>kwargs.get(key, default)\<close> on the keyword arguments of \<open>create_user\<close>.\<close>

definition kwargs_get :: "(string \<times> pyval) list \<Rightarrow> string \<Rightarrow> pyval \<Rightarrow> pyval" where
  "kwargs_get kwargs k d = (case map_of kwargs k of None \<Rightarrow> d | Some v \<Rightarrow> v)"

definition default_communication_preferences :: pyval where
  "default_communication_preferences =
     PDict [(''style'', PStr (str ''direct'')), (''preferred_topics'', PList []),
            (''avoided_topics'', PList []), (''notes'', PStr [])]"

definition default_profile :: "(string \<times> pyval) list \<Rightarrow> (string \<times> pyval) list" where
  "default_profile kwargs =
     [(''age'', kwargs_get kwargs ''age'' PNone),
      (''gender'', kwargs_get kwargs ''gender'' PNone),
      (''emergency_contacts'', kwargs_get kwargs ''emergency_contacts'' (PList [])),
      (''academic_history'', kwargs_get kwargs ''academic_history'' (PStr [])),
      (''professionals'', kwargs_get kwargs ''professionals'' (PList [])),
      (''interests'', kwargs_get kwargs ''interests'' (PList [])),
      (''anxiety_triggers'', kwargs_get kwargs ''anxiety_triggers'' (PList [])),
      (''communication_preferences'',
         kwargs_get kwargs ''communication_preferences'' default_communication_preferences),
      (''interaction_history'', PList [])]"

text \<open>
  The body of \<open>create_user\<close> builds the record and assigns it to \<open>self.users[user_id]\<close>
  without looking at what is stored there; no statement of the \<open>try\<close> block can raise
  on these values, so the result is always \<open>True\<close>.
\<close>

definition create_user ::
  "timestamp \<Rightarrow> user_id \<Rightarrow> pystr \<Rightarrow> pystr \<Rightarrow> (string \<times> pyval) list \<Rightarrow> database
     \<Rightarrow> bool \<times> database" where
  "create_user now uid nm rl kwargs db =
     (let user_data = \<lparr>user_id = uid, user_name = nm, role = rl, user_groups = [],
                        user_created_at = now, user_last_active = now,
                        profile = (if rl = (str ''autista'') then Some (default_profile kwargs)
                                   else None)\<rparr>
      in (True, db\<lparr>users := (users db)(uid \<mapsto> user_data)\<rparr>))"

subsection \<open>Database.update_user_profile, get_user, update_last_active\<close>

definition update_user_profile ::
  "user_id \<Rightarrow> (string \<times> pyval) list \<Rightarrow> database \<Rightarrow> bool \<times> database" where
  "update_user_profile uid profile_data db =
     (case users db uid of
        None \<Rightarrow> (False, db)
      | Some u \<Rightarrow>
          (let p0 = (case profile u of None \<Rightarrow> [] | Some p \<Rightarrow> p);
               p1 = fold (\<lambda>(k, v) p. AList.update k v p) profile_data p0
           in (True, db\<lparr>users := (users db)(uid \<mapsto> u\<lparr>profile := Some p1\<rparr>)\<rparr>)))"

definition get_user :: "user_id \<Rightarrow> database \<Rightarrow> user option" where
  "get_user uid db = users db uid"

definition update_last_active :: "timestamp \<Rightarrow> user_id \<Rightarrow> database \<Rightarrow> database" where
  "update_last_active now uid db =
     (case users db uid of
        None \<Rightarrow> db
      | Some u \<Rightarrow> db\<lparr>users := (users db)(uid \<mapsto> u\<lparr>user_last_active := now\<rparr>)\<rparr>)"

subsection \<open>Database.create_group, get_all_groups, get_group, add_user_to_group\<close>

definition create_group ::
  "timestamp \<Rightarrow> group_id \<Rightarrow> pystr \<Rightarrow> pystr \<Rightarrow> pystr \<Rightarrow> user_id \<Rightarrow> int \<Rightarrow> database
     \<Rightarrow> bool \<times> database" where
  "create_group now gid nm th descr creator mx db =
     (let group_data = \<lparr>group_id = gid, group_name = nm, theme = th,
                         group_description = descr, created_by = creator,
                         members = [creator], max_members = mx,
                         group_created_at = now, group_last_active = now,
                         ai_mediator_enabled = True\<rparr>;
          db1 = db\<lparr>groups := AList.update gid group_data (groups db)\<rparr>;
          db2 = (case users db1 creator of
                   None \<Rightarrow> db1
                 | Some u \<Rightarrow>
                     db1\<lparr>users := (users db1)
                            (creator \<mapsto> u\<lparr>user_groups := user_groups u @ [gid]\<rparr>)\<rparr>)
      in (True, db2))"

definition get_all_groups :: "database \<Rightarrow> group list" where
  "get_all_groups db = map snd (groups db)"

definition get_group :: "group_id \<Rightarrow> database \<Rightarrow> group option" where
  "get_group gid db = map_of (groups db) gid"

definition add_user_to_group :: "user_id \<Rightarrow> group_id \<Rightarrow> database \<Rightarrow> bool \<times> database" where
  "add_user_to_group uid gid db =
     (case map_of (groups db) gid of
        None \<Rightarrow> (False, db)
      | Some g \<Rightarrow>
          (case users db uid of
             None \<Rightarrow> (False, db)
           | Some u \<Rightarrow>
               (let db1 = (if uid \<notin> set (members g)
                           then db\<lparr>groups :=
                                  AList.update gid (g\<lparr>members := members g @ [uid]\<rparr>) (groups db)\<rparr>
                           else db);
                    db2 = (if gid \<notin> set (user_groups u)
                           then db1\<lparr>users := (users db1)
                                  (uid \<mapsto> u\<lparr>user_groups := user_groups u @ [gid]\<rparr>)\<rparr>
                           else db1)
                in (True, db2))))"

subsection \<open>Database.create_activity, get_user_activities\<close>

text \<open>
  The identifier of an activity is the text of the clock reading,
  \<open>str(datetime.now().timestamp())\<close>; it is the parameter \<open>aid\<close>. An absent
  \<open>scheduled_time\<close> is replaced by the clock reading.
\<close>

definition create_activity ::
  "timestamp \<Rightarrow> pystr \<Rightarrow> group_id \<Rightarrow> pystr \<Rightarrow> pystr \<Rightarrow> pystr \<Rightarrow> user_id
     \<Rightarrow> timestamp option \<Rightarrow> int \<Rightarrow> database \<Rightarrow> pystr option \<times> database" where
  "create_activity now aid gid ty ttl descr creator sched dur db =
     (let activity_data = \<lparr>activity_id = aid, activity_group_id = gid, activity_type = ty,
                            title = ttl, activity_description = descr,
                            activity_created_by = creator, participants = [],
                            status = (str ''scheduled''),
                            scheduled_time = (case sched of None \<Rightarrow> now | Some t \<Rightarrow> t),
                            duration = dur, activity_created_at = now,
                            ai_guidance_enabled = True\<rparr>
      in (Some aid, db\<lparr>activities := AList.update aid activity_data (activities db)\<rparr>))"

text \<open>
  The \<open>for\<close> loop of \<open>get_user_activities\<close> over \<open>self.activities.items()\<close>, with the list
  \<open>activities\<close> it appends to as the accumulator.
\<close>

fun collect_activities ::
  "group_id list \<Rightarrow> (pystr \<times> activity) list \<Rightarrow> activity list \<Rightarrow> activity list" where
  "collect_activities ugs [] acc = acc"
| "collect_activities ugs ((aid, a) # rest) acc =
     collect_activities ugs rest
       (if activity_group_id a \<in> set ugs \<and> status a = (str ''scheduled'') then acc @ [a] else acc)"

definition get_user_activities :: "user_id \<Rightarrow> database \<Rightarrow> activity list" where
  "get_user_activities uid db =
     (case users db uid of
        None \<Rightarrow> []
      | Some u \<Rightarrow> collect_activities (user_groups u) (activities db) [])"

section \<open>Reading an integer from a message: Python's \<open>int(str)\<close>\<close>

text \<open>
  The three numeric steps call \<open>int(update.message.text)\<close> and catch \<open>ValueError\<close>, and
  the button handlers call \<open>int\<close> on a part of the button's data. \<open>py_int\<close> is \<open>int\<close> on a
  \<open>str\<close> in base ten, as CPython 3.11 computes it with its default settings; \<open>None\<close> is
  the \<open>ValueError\<close>.

  \<^item> First every code point from 127 on is replaced: a Unicode white space by a blank,
    a Unicode decimal digit by the ASCII digit of its value, anything else by a
    question mark (\<open>to_ascii\<close>). Code points below 127 stay.
  \<^item> Then ASCII white space is skipped at both ends: the characters 9 to 13 and the
    blank (\<open>py_isspace\<close>). The characters 28 to 31 are white space for \<open>str.strip\<close> but
    not here.
  \<^item> One sign may follow, and then come decimal digits, where a single underscore may
    stand between two digits (\<open>scan_digits\<close>).
  \<^item> A numeral of more than 4300 digits is refused (\<open>max_str_digits\<close>).

  The decimal digits of Unicode 14.0, the version of CPython 3.11, come in 66 runs of
  ten code points with the values 0 to 9; \<open>decimal_zeros\<close> lists the first code point of
  each run.
\<close>

definition py_unicode_isspace :: "nat \<Rightarrow> bool" where
  "py_unicode_isspace c =
     ((9 \<le> c \<and> c \<le> 13) \<or> (28 \<le> c \<and> c \<le> 32) \<or> c = 0x85 \<or> c = 0xA0 \<or> c = 0x1680
      \<or> (0x2000 \<le> c \<and> c \<le> 0x200A) \<or> c = 0x2028 \<or> c = 0x2029 \<or> c = 0x202F
      \<or> c = 0x205F \<or> c = 0x3000)"

definition py_isspace :: "nat \<Rightarrow> bool" where
  "py_isspace c = ((9 \<le> c \<and> c \<le> 13) \<or> c = 32)"

definition decimal_zeros :: "nat list" where
  "decimal_zeros =
     [0x30, 0x660, 0x6F0, 0x7C0, 0x966, 0x9E6, 0xA66, 0xAE6, 0xB66, 0xBE6, 0xC66, 0xCE6,
      0xD66, 0xDE6, 0xE50, 0xED0, 0xF20, 0x1040, 0x1090, 0x17E0, 0x1810, 0x1946, 0x19D0,
      0x1A80, 0x1A90, 0x1B50, 0x1BB0, 0x1C40, 0x1C50, 0xA620, 0xA8D0, 0xA900, 0xA9D0,
      0xA9F0, 0xAA50, 0xABF0, 0xFF10, 0x104A0, 0x10D30, 0x11066, 0x110F0, 0x11136,
      0x111D0, 0x112F0, 0x11450, 0x114D0, 0x11650, 0x116C0, 0x11730, 0x118E0, 0x11950,
      0x11C50, 0x11D50, 0x11DA0, 0x16A60, 0x16AC0, 0x16B50, 0x1D7CE, 0x1D7D8, 0x1D7E2,
      0x1D7EC, 0x1D7F6, 0x1E140, 0x1E2F0, 0x1E950, 0x1FBF0]"

definition py_unicode_todecimal :: "nat \<Rightarrow> nat option" where
  "py_unicode_todecimal c =
     map_option (\<lambda>z. c - z) (find (\<lambda>z. z \<le> c \<and> c < z + 10) decimal_zeros)"

definition to_ascii :: "nat \<Rightarrow> nat" where
  "to_ascii c =
     (if c < 127 then c
      else if py_unicode_isspace c then 32
      else (case py_unicode_todecimal c of Some d \<Rightarrow> 48 + d | None \<Rightarrow> 63))"

definition is_digit :: "nat \<Rightarrow> bool" where
  "is_digit c = (48 \<le> c \<and> c \<le> 57)"

definition digit_val :: "nat \<Rightarrow> int" where
  "digit_val c = int c - 48"

definition strip_with :: "('a \<Rightarrow> bool) \<Rightarrow> 'a list \<Rightarrow> 'a list" where
  "strip_with P s = rev (dropWhile P (rev (dropWhile P s)))"

text \<open>\<open>s.strip()\<close> removes Unicode white space at both ends.\<close>

definition strip :: "pystr \<Rightarrow> pystr" where
  "strip s = strip_with py_unicode_isspace s"

text \<open>
  The scan over digits and underscores; \<open>prev\<close> says that the character before was a
  digit. An underscore is accepted only after a digit, and the text must end in a digit.
\<close>

fun scan_digits :: "bool \<Rightarrow> int \<Rightarrow> pystr \<Rightarrow> int option" where
  "scan_digits prev acc [] = (if prev then Some acc else None)"
| "scan_digits prev acc (c # cs) =
     (if is_digit c then scan_digits True (acc * 10 + digit_val c) cs
      else if c = 95 \<and> prev then scan_digits False acc cs
      else None)"

definition max_str_digits :: nat where
  "max_str_digits = 4300"

definition py_int :: "pystr \<Rightarrow> int option" where
  "py_int s =
     (case strip_with py_isspace (map to_ascii s) of
        [] \<Rightarrow> None
      | c # cs \<Rightarrow>
          if max_str_digits < length (filter is_digit (c # cs)) then None
          else if c = 45 then map_option uminus (scan_digits False 0 cs)
          else if c = 43 then scan_digits False 0 cs
          else scan_digits False 0 (c # cs))"

text \<open>
  The decimal numeral of a natural number, the text that a user types for it (and that
  Python's \<open>str\<close> writes); it is used to state what the numeric steps do on numbers.
\<close>

definition digit_char :: "nat \<Rightarrow> nat" where
  "digit_char d = 48 + d"

function decimal :: "nat \<Rightarrow> pystr" where
  "decimal n = (if n < 10 then [digit_char n] else decimal (n div 10) @ [digit_char (n mod 10)])"
  by pat_completeness auto
termination by (relation "measure id") auto

declare decimal.simps [simp del]

text \<open>\<open>s.split(sep)\<close> for a separator of one character.\<close>

fun split_on :: "'a \<Rightarrow> 'a list \<Rightarrow> 'a list list" where
  "split_on sep [] = [[]]"
| "split_on sep (c # cs) =
     (if c = sep then [] # split_on sep cs
      else (case split_on sep cs of
              [] \<Rightarrow> [[c]]
            | w # ws \<Rightarrow> (c # w) # ws))"

section \<open>The dialog handlers\<close>

text \<open>
  A handler of main.py receives \<open>update\<close> and \<open>context\<close>. From \<open>update\<close> it reads the
  sender's id and the message text or the data of the pressed button; these are the
  arguments \<open>uid\<close>, \<open>txt\<close> and \<open>data\<close>. It reads and writes the global store \<open>db\<close> and the
  sender's \<open>context.user_data\<close>, and it sends replies: the three make up the \<open>world\<close> that
  a handler takes and returns. The result of a handler is the next state of the
  conversation, or the exception that it raises; what it wrote before raising stays
  written.

  \<open>context.user_data\<close> is a dictionary. Every key of it is written with values of one
  Python type only, so it is a record with one optional field for each key, \<open>None\<close> for
  a key that is absent. No handler removes a key or empties the dictionary. The key
  \<open>at_groups\<close> holds group dictionaries of the store; the handlers modelled here neither
  read nor write it.
\<close>

datatype py_error = KeyError string | ValueError | IndexError

datatype conv_state =
    REGISTER_NAME | REGISTER_ROLE | PROFILE_AGE | PROFILE_GENDER | PROFILE_CONTACTS
  | PROFILE_ACADEMIC | PROFILE_PROFESSIONALS | PROFILE_INTERESTS | PROFILE_TRIGGERS
  | PROFILE_COMMUNICATION | GROUP_NAME | GROUP_THEME | GROUP_DESC | GROUP_MAX
  | ACTIVITY_GROUP | ACTIVITY_TYPE | ACTIVITY_TITLE | ACTIVITY_DESC | ACTIVITY_DURATION
  | END

record user_data =
  ud_name :: "pystr option"
  ud_role :: "pystr option"
  ud_profile_age :: "int option"
  ud_profile_gender :: "pystr option"
  ud_profile_contacts :: "pystr list option"
  ud_profile_academic :: "pystr option"
  ud_profile_professionals :: "pystr list option"
  ud_profile_interests :: "pystr list option"
  ud_profile_triggers :: "pystr list option"
  ud_profile_communication :: "pystr option"
  ud_group_name :: "pystr option"
  ud_group_theme :: "pystr option"
  ud_group_desc :: "pystr option"
  ud_group_max :: "int option"
  ud_at_groups :: "group list option"
  ud_activity_group_id :: "group_id option"
  ud_activity_group_name :: "pystr option"
  ud_activity_type :: "pystr option"
  ud_activity_type_name :: "pystr option"
  ud_activity_title :: "pystr option"
  ud_activity_desc :: "pystr option"
  ud_activity_duration :: "int option"

definition empty_user_data :: user_data where
  "empty_user_data =
     \<lparr>ud_name = None, ud_role = None, ud_profile_age = None, ud_profile_gender = None,
      ud_profile_contacts = None, ud_profile_academic = None,
      ud_profile_professionals = None, ud_profile_interests = None,
      ud_profile_triggers = None, ud_profile_communication = None, ud_group_name = None,
      ud_group_theme = None, ud_group_desc = None, ud_group_max = None,
      ud_at_groups = None, ud_activity_group_id = None, ud_activity_group_name = None,
      ud_activity_type = None, ud_activity_type_name = None, ud_activity_title = None,
      ud_activity_desc = None, ud_activity_duration = None\<rparr>"

text \<open>
  One constructor for each message text of the modelled handlers; the arguments are the
  values that the text interpolates.
\<close>

datatype reply =
    AlreadyRegistered pystr pystr
  | WelcomeAskName
  | AskRole pystr
  | RegisteredAskAge
  | RegisteredAT
  | RegisterFailed
  | AgeOutOfRange
  | AgeNotNumber
  | AskGender
  | AskContacts
  | AskAcademic
  | AskProfessionals
  | AskInterests
  | AskTriggers
  | AskCommunication
  | ProfileSaved
  | ProfileSaveFailed
  | NeedRegistration
  | OnlyATCreateGroups
  | AskGroupName
  | AskGroupTheme pystr
  | AskGroupDesc pystr
  | AskGroupMax
  | GroupMaxOutOfRange
  | GroupMaxNotNumber
  | GroupCreated pystr
  | GroupCreateFailed
  | DurationOutOfRange
  | DurationNotNumber
  | ActivityCreated pystr pystr
  | ActivityCreateFailed
  | JoinedGroup pystr
  | JoinFailed

record world =
  store :: database
  user_data :: user_data
  outbox :: "reply list"

type_synonym handler_result = "(py_error + conv_state) \<times> world"

definition reply_text :: "reply \<Rightarrow> world \<Rightarrow> world" where
  "reply_text r w = w\<lparr>outbox := outbox w @ [r]\<rparr>"

subsection \<open>Registration: start, process_name, process_role\<close>

definition start :: "timestamp \<Rightarrow> user_id \<Rightarrow> world \<Rightarrow> handler_result" where
  "start now uid w =
     (let w1 = w\<lparr>store := update_last_active now uid (store w)\<rparr>
      in case get_user uid (store w1) of
           Some u \<Rightarrow> (Inr END, reply_text (AlreadyRegistered (user_name u) (role u)) w1)
         | None \<Rightarrow> (Inr REGISTER_NAME, reply_text WelcomeAskName w1))"

definition process_name :: "pystr \<Rightarrow> world \<Rightarrow> handler_result" where
  "process_name txt w =
     (Inr REGISTER_ROLE,
      reply_text (AskRole txt) (w\<lparr>user_data := (user_data w)\<lparr>ud_name := Some txt\<rparr>\<rparr>))"

text \<open>
  The handlers that commit to the store call a method of the global \<open>db\<close>. The store of
  main.py is by its own comment a placeholder for a database connection, and each of its
  methods turns an exception into the result \<open>False\<close> (or \<open>None\<close>). So that the branch of a
  handler for a failed commit is part of the model, the handler takes the store's
  operation as its first argument (\<open>process_role_on\<close>), and the handler of main.py is
  the instance with the operation of the class \<open>Database\<close> (\<open>process_role\<close>).
\<close>

definition process_role_on ::
  "(user_id \<Rightarrow> pystr \<Rightarrow> pystr \<Rightarrow> database \<Rightarrow> bool \<times> database)
     \<Rightarrow> user_id \<Rightarrow> pystr \<Rightarrow> world \<Rightarrow> handler_result" where
  "process_role_on db_create_user uid data w =
     (let w1 = w\<lparr>user_data := (user_data w)\<lparr>ud_role := Some data\<rparr>\<rparr>
      in case ud_name (user_data w1) of
           None \<Rightarrow> (Inl (KeyError ''name''), w1)
         | Some nm \<Rightarrow>
             (case db_create_user uid nm data (store w1) of
                (success, db') \<Rightarrow>
                  (let w2 = w1\<lparr>store := db'\<rparr>
                   in if success
                      then (if data = (str ''autista'')
                            then (Inr PROFILE_AGE, reply_text RegisteredAskAge w2)
                            else (Inr END, reply_text RegisteredAT w2))
                      else (Inr END, reply_text RegisterFailed w2))))"

definition process_role :: "timestamp \<Rightarrow> user_id \<Rightarrow> pystr \<Rightarrow> world \<Rightarrow> handler_result" where
  "process_role now = process_role_on (\<lambda>uid nm rl. create_user now uid nm rl [])"

subsection \<open>Profile: the age step and the steps after it\<close>

definition process_profile_age :: "pystr \<Rightarrow> world \<Rightarrow> handler_result" where
  "process_profile_age txt w =
     (case py_int txt of
        None \<Rightarrow> (Inr PROFILE_AGE, reply_text AgeNotNumber w)
      | Some age \<Rightarrow>
          if age < 5 \<or> age > 100 then (Inr PROFILE_AGE, reply_text AgeOutOfRange w)
          else (Inr PROFILE_GENDER,
                reply_text AskGender
                  (w\<lparr>user_data := (user_data w)\<lparr>ud_profile_age := Some age\<rparr>\<rparr>)))"

definition process_profile_gender :: "pystr \<Rightarrow> world \<Rightarrow> handler_result" where
  "process_profile_gender data w =
     (Inr PROFILE_CONTACTS,
      reply_text AskContacts (w\<lparr>user_data := (user_data w)\<lparr>ud_profile_gender := Some data\<rparr>\<rparr>))"

text \<open>\<open>[x.strip() for x in txt.split(sep) if x.strip()]\<close>\<close>

definition split_strip :: "nat \<Rightarrow> pystr \<Rightarrow> pystr list" where
  "split_strip sep txt = map strip (filter (\<lambda>x. strip x \<noteq> []) (split_on sep txt))"

definition process_profile_contacts :: "pystr \<Rightarrow> world \<Rightarrow> handler_result" where
  "process_profile_contacts txt w =
     (Inr PROFILE_ACADEMIC,
      reply_text AskAcademic
        (w\<lparr>user_data := (user_data w)\<lparr>ud_profile_contacts := Some (split_strip 10 txt)\<rparr>\<rparr>))"

definition process_profile_academic :: "pystr \<Rightarrow> world \<Rightarrow> handler_result" where
  "process_profile_academic txt w =
     (Inr PROFILE_PROFESSIONALS,
      reply_text AskProfessionals
        (w\<lparr>user_data := (user_data w)\<lparr>ud_profile_academic := Some txt\<rparr>\<rparr>))"

definition process_profile_professionals :: "pystr \<Rightarrow> world \<Rightarrow> handler_result" where
  "process_profile_professionals txt w =
     (Inr PROFILE_INTERESTS,
      reply_text AskInterests
        (w\<lparr>user_data :=
             (user_data w)\<lparr>ud_profile_professionals := Some (split_strip 10 txt)\<rparr>\<rparr>))"

definition process_profile_interests :: "pystr \<Rightarrow> world \<Rightarrow> handler_result" where
  "process_profile_interests txt w =
     (Inr PROFILE_TRIGGERS,
      reply_text AskTriggers
        (w\<lparr>user_data :=
             (user_data w)\<lparr>ud_profile_interests := Some (split_strip 44 txt)\<rparr>\<rparr>))"

definition process_profile_triggers :: "pystr \<Rightarrow> world \<Rightarrow> handler_result" where
  "process_profile_triggers txt w =
     (Inr PROFILE_COMMUNICATION,
      reply_text AskCommunication
        (w\<lparr>user_data :=
             (user_data w)\<lparr>ud_profile_triggers := Some (split_strip 44 txt)\<rparr>\<rparr>))"

text \<open>The dictionary \<open>profile_data\<close> that the last profile step builds from \<open>user_data\<close>.\<close>

definition profile_data_of :: "user_data \<Rightarrow> (string \<times> pyval) list" where
  "profile_data_of ud =
     [(''age'', (case ud_profile_age ud of None \<Rightarrow> PNone | Some a \<Rightarrow> PInt a)),
      (''gender'', (case ud_profile_gender ud of None \<Rightarrow> PNone | Some g \<Rightarrow> PStr g)),
      (''emergency_contacts'',
         PList (case ud_profile_contacts ud of None \<Rightarrow> [] | Some l \<Rightarrow> l)),
      (''academic_history'',
         PStr (case ud_profile_academic ud of None \<Rightarrow> [] | Some t \<Rightarrow> t)),
      (''professionals'',
         PList (case ud_profile_professionals ud of None \<Rightarrow> [] | Some l \<Rightarrow> l)),
      (''interests'', PList (case ud_profile_interests ud of None \<Rightarrow> [] | Some l \<Rightarrow> l)),
      (''anxiety_triggers'',
         PList (case ud_profile_triggers ud of None \<Rightarrow> [] | Some l \<Rightarrow> l)),
      (''communication_preferences'',
         PDict [(''style'',
                 PStr (case ud_profile_communication ud of
                         None \<Rightarrow> (str ''direta'') | Some t \<Rightarrow> t))])]"

definition process_profile_communication_on ::
  "(user_id \<Rightarrow> (string \<times> pyval) list \<Rightarrow> database \<Rightarrow> bool \<times> database)
     \<Rightarrow> user_id \<Rightarrow> pystr \<Rightarrow> world \<Rightarrow> handler_result" where
  "process_profile_communication_on db_update_user_profile uid data w =
     (let w1 = w\<lparr>user_data := (user_data w)\<lparr>ud_profile_communication := Some data\<rparr>\<rparr>
      in case db_update_user_profile uid (profile_data_of (user_data w1)) (store w1) of
           (success, db') \<Rightarrow>
             (let w2 = w1\<lparr>store := db'\<rparr>
              in (Inr END,
                  if success then reply_text ProfileSaved w2
                  else reply_text ProfileSaveFailed w2)))"

definition process_profile_communication :: "user_id \<Rightarrow> pystr \<Rightarrow> world \<Rightarrow> handler_result" where
  "process_profile_communication = process_profile_communication_on update_user_profile"

subsection \<open>Group creation: create_group_start and the four steps\<close>

definition create_group_start :: "timestamp \<Rightarrow> user_id \<Rightarrow> world \<Rightarrow> handler_result" where
  "create_group_start now uid w =
     (let w1 = w\<lparr>store := update_last_active now uid (store w)\<rparr>
      in case get_user uid (store w1) of
           None \<Rightarrow> (Inr END, reply_text NeedRegistration w1)
         | Some u \<Rightarrow>
             if role u \<noteq> (str ''at'') then (Inr END, reply_text OnlyATCreateGroups w1)
             else (Inr GROUP_NAME, reply_text AskGroupName w1))"

definition process_group_name :: "pystr \<Rightarrow> world \<Rightarrow> handler_result" where
  "process_group_name txt w =
     (Inr GROUP_THEME,
      reply_text (AskGroupTheme txt) (w\<lparr>user_data := (user_data w)\<lparr>ud_group_name := Some txt\<rparr>\<rparr>))"

definition process_group_theme :: "pystr \<Rightarrow> world \<Rightarrow> handler_result" where
  "process_group_theme txt w =
     (Inr GROUP_DESC,
      reply_text (AskGroupDesc txt) (w\<lparr>user_data := (user_data w)\<lparr>ud_group_theme := Some txt\<rparr>\<rparr>))"

definition process_group_desc :: "pystr \<Rightarrow> world \<Rightarrow> handler_result" where
  "process_group_desc txt w =
     (Inr GROUP_MAX,
      reply_text AskGroupMax (w\<lparr>user_data := (user_data w)\<lparr>ud_group_desc := Some txt\<rparr>\<rparr>))"

text \<open>
  The last step takes the new group's id from the clock,
  \<open>int(datetime.now().timestamp())\<close>: the argument \<open>gid\<close>. The keyword arguments of the
  call to \<open>create_group\<close> are evaluated in the order of the source, so the first key that
  is missing in \<open>user_data\<close> is the one of the \<open>KeyError\<close>.
\<close>

definition process_group_max_on ::
  "(group_id \<Rightarrow> pystr \<Rightarrow> pystr \<Rightarrow> pystr \<Rightarrow> user_id \<Rightarrow> int \<Rightarrow> database \<Rightarrow> bool \<times> database)
     \<Rightarrow> group_id \<Rightarrow> user_id \<Rightarrow> pystr \<Rightarrow> world \<Rightarrow> handler_result" where
  "process_group_max_on db_create_group gid uid txt w =
     (case py_int txt of
        None \<Rightarrow> (Inr GROUP_MAX, reply_text GroupMaxNotNumber w)
      | Some mx \<Rightarrow>
          if mx < 2 \<or> mx > 50 then (Inr GROUP_MAX, reply_text GroupMaxOutOfRange w)
          else
            (let w1 = w\<lparr>user_data := (user_data w)\<lparr>ud_group_max := Some mx\<rparr>\<rparr>
             in case ud_group_name (user_data w1) of
                  None \<Rightarrow> (Inl (KeyError ''group_name''), w1)
                | Some nm \<Rightarrow>
                    (case ud_group_theme (user_data w1) of
                       None \<Rightarrow> (Inl (KeyError ''group_theme''), w1)
                     | Some th \<Rightarrow>
                         (case ud_group_desc (user_data w1) of
                            None \<Rightarrow> (Inl (KeyError ''group_desc''), w1)
                          | Some descr \<Rightarrow>
                              (case db_create_group gid nm th descr uid mx (store w1) of
                                 (success, db') \<Rightarrow>
                                   (let w2 = w1\<lparr>store := db'\<rparr>
                                    in (Inr END,
                                        if success then reply_text (GroupCreated nm) w2
                                        else reply_text GroupCreateFailed w2)))))))"

definition process_group_max ::
  "timestamp \<Rightarrow> group_id \<Rightarrow> user_id \<Rightarrow> pystr \<Rightarrow> world \<Rightarrow> handler_result" where
  "process_group_max now = process_group_max_on (create_group now)"

subsection \<open>Activity creation: the duration step\<close>

text \<open>
  The steps of the activity dialog before the last one only fill \<open>user_data\<close>; they are
  not modelled. In the last step, the reply for a created activity reads the key
  \<open>activity_group_name\<close> after the activity has been stored.
\<close>

definition process_activity_duration_on ::
  "(group_id \<Rightarrow> pystr \<Rightarrow> pystr \<Rightarrow> pystr \<Rightarrow> user_id \<Rightarrow> int \<Rightarrow> database
      \<Rightarrow> pystr option \<times> database)
     \<Rightarrow> user_id \<Rightarrow> pystr \<Rightarrow> world \<Rightarrow> handler_result" where
  "process_activity_duration_on db_create_activity uid txt w =
     (case py_int txt of
        None \<Rightarrow> (Inr ACTIVITY_DURATION, reply_text DurationNotNumber w)
      | Some dur \<Rightarrow>
          if dur < 5 \<or> dur > 180 then (Inr ACTIVITY_DURATION, reply_text DurationOutOfRange w)
          else
            (let w1 = w\<lparr>user_data := (user_data w)\<lparr>ud_activity_duration := Some dur\<rparr>\<rparr>
             in case ud_activity_group_id (user_data w1) of
                  None \<Rightarrow> (Inl (KeyError ''activity_group_id''), w1)
                | Some gid \<Rightarrow>
                    (case ud_activity_type (user_data w1) of
                       None \<Rightarrow> (Inl (KeyError ''activity_type''), w1)
                     | Some ty \<Rightarrow>
                         (case ud_activity_title (user_data w1) of
                            None \<Rightarrow> (Inl (KeyError ''activity_title''), w1)
                          | Some ttl \<Rightarrow>
                              (case ud_activity_desc (user_data w1) of
                                 None \<Rightarrow> (Inl (KeyError ''activity_desc''), w1)
                               | Some descr \<Rightarrow>
                                   (case db_create_activity gid ty ttl descr uid dur (store w1) of
                                      (res, db') \<Rightarrow>
                                        (let w2 = w1\<lparr>store := db'\<rparr>
                                         in if res \<noteq> None \<and> res \<noteq> Some []
                                            then (case ud_activity_group_name (user_data w2) of
                                                    None \<Rightarrow>
                                                      (Inl (KeyError ''activity_group_name''), w2)
                                                  | Some gn \<Rightarrow>
                                                      (Inr END,
                                                       reply_text (ActivityCreated ttl gn) w2))
                                            else (Inr END,
                                                  reply_text ActivityCreateFailed w2))))))))"

definition process_activity_duration ::
  "timestamp \<Rightarrow> pystr \<Rightarrow> user_id \<Rightarrow> pystr \<Rightarrow> world \<Rightarrow> handler_result" where
  "process_activity_duration now aid =
     process_activity_duration_on
       (\<lambda>gid ty ttl descr creator dur. create_activity now aid gid ty ttl descr creator None dur)"

subsection \<open>Joining a group: the buttons of list_groups and join_group_callback\<close>

text \<open>
  \<open>list_groups\<close> puts one button \<open>join_<group id>\<close> under its message for every group
  whose member list is shorter than its \<open>max_members\<close>; \<open>list_groups_keyboard\<close> is the list
  of the group ids of these buttons.
\<close>

definition list_groups_keyboard :: "database \<Rightarrow> group_id list" where
  "list_groups_keyboard db =
     map group_id (filter (\<lambda>g. int (length (members g)) < max_members g) (get_all_groups db))"

definition join_group_callback :: "user_id \<Rightarrow> pystr \<Rightarrow> world \<Rightarrow> (py_error + unit) \<times> world" where
  "join_group_callback uid data w =
     (case split_on 95 data of
        a # b # rest \<Rightarrow>
          (case py_int b of
             None \<Rightarrow> (Inl ValueError, w)
           | Some gid \<Rightarrow>
               (case add_user_to_group uid gid (store w) of
                  (success, db') \<Rightarrow>
                    (let w1 = w\<lparr>store := db'\<rparr>
                     in if success
                        then (Inr (),
                              reply_text
                                (JoinedGroup (case get_group gid (store w1) of
                                                None \<Rightarrow> (str ''Grupo'')
                                              | Some g \<Rightarrow> group_name g)) w1)
                        else (Inr (), reply_text JoinFailed w1))))
      | _ \<Rightarrow> (Inl IndexError, w))"

subsection \<open>The conversation handler of the group dialog\<close>

text \<open>
  \<open>main\<close> registers the group dialog as a \<open>ConversationHandler\<close> with the entry point
  \<open>/criar_grupo\<close>, one text handler for each of the four states and the fallback
  \<open>/start\<close>. The library keeps the state of the sender's conversation, here
  \<open>conv_state option\<close> with \<open>None\<close> for no conversation, and stores what a handler
  returns: \<open>END\<close> ends the conversation, and a handler that raises leaves the state
  as it was. An update that no handler of the dialog takes gives \<open>None\<close>: it goes on
  to the handlers that \<open>main\<close> registers after this one.
\<close>

datatype update = Command string | TextMessage pystr | CallbackQuery pystr

definition next_conv :: "conv_state option \<Rightarrow> py_error + conv_state \<Rightarrow> conv_state option" where
  "next_conv cur r =
     (case r of Inl e \<Rightarrow> cur | Inr s \<Rightarrow> if s = END then None else Some s)"

definition conv_step :: "conv_state option \<Rightarrow> handler_result \<Rightarrow> conv_state option \<times> world" where
  "conv_step cur r = (next_conv cur (fst r), snd r)"

definition group_conv_handler ::
  "timestamp \<Rightarrow> group_id \<Rightarrow> user_id \<Rightarrow> update \<Rightarrow> conv_state option \<times> world
     \<Rightarrow> (conv_state option \<times> world) option" where
  "group_conv_handler now gid uid upd cw =
     (case cw of
        (cur, w) \<Rightarrow>
          (case cur of
             None \<Rightarrow>
               (case upd of
                  Command c \<Rightarrow>
                    if c = ''criar_grupo'' then Some (conv_step cur (create_group_start now uid w))
                    else None
                | TextMessage t \<Rightarrow> None
                | CallbackQuery d \<Rightarrow> None)
           | Some st \<Rightarrow>
               (case upd of
                  TextMessage t \<Rightarrow>
                    if st = GROUP_NAME then Some (conv_step cur (process_group_name t w))
                    else if st = GROUP_THEME then Some (conv_step cur (process_group_theme t w))
                    else if st = GROUP_DESC then Some (conv_step cur (process_group_desc t w))
                    else if st = GROUP_MAX
                    then Some (conv_step cur (process_group_max now gid uid t w))
                    else None
                | Command c \<Rightarrow>
                    if c = ''start'' then Some (conv_step cur (start now uid w)) else None
                | CallbackQuery d \<Rightarrow> None)))"

section \<open>Example stores and worlds\<close>

text \<open>
  Concrete states, each built from the empty store by the store's own operations; the
  theorems below evaluate the program on them. In \<open>facilitator_db\<close> user 1 registers with
  the role \<open>at\<close> and creates group 100. In \<open>late_creator_db\<close> group 100 is created for
  creator 1 before user 1 is registered. In \<open>full_group_db\<close> user 1 creates group 100
  with \<open>max_members = 2\<close>, and user 2 joins it; user 3 is registered as well.
\<close>

definition facilitator_db :: database where
  "facilitator_db =
     snd (create_group 0 100 (str ''G'') (str ''t'') (str ''d'') 1 5
       (snd (create_user 0 1 (str ''F'') (str ''at'') [] init_database)))"

definition late_creator_db :: database where
  "late_creator_db =
     snd (create_user 0 1 (str ''F'') (str ''at'') []
       (snd (create_group 0 100 (str ''G'') (str ''t'') (str ''d'') 1 5 init_database)))"

definition full_group_db :: database where
  "full_group_db =
     snd (add_user_to_group 2 100
       (snd (create_group 0 100 (str ''G'') (str ''t'') (str ''d'') 1 2
         (snd (create_user 0 3 (str ''B'') (str ''autista'') []
           (snd (create_user 0 2 (str ''A'') (str ''autista'') []
             (snd (create_user 0 1 (str ''F'') (str ''at'') [] init_database)))))))))"

definition fresh_world :: world where
  "fresh_world = \<lparr>store = init_database, user_data = empty_user_data, outbox = []\<rparr>"

definition world_of :: "database \<Rightarrow> world" where
  "world_of db = \<lparr>store = db, user_data = empty_user_data, outbox = []\<rparr>"

text \<open>The world after the name step of the registration, and after three group steps.\<close>

definition named_world :: world where
  "named_world = snd (process_name (str ''Ana'') fresh_world)"

definition group_answers_world :: world where
  "group_answers_world =
     snd (process_group_desc (str ''d'')
       (snd (process_group_theme (str ''t'')
         (snd (process_group_name (str ''G'') (world_of facilitator_db))))))"

text \<open>
  User 1 of \<open>facilitator_db\<close> in a second chat, where a registration dialog that was begun
  before the user was registered has reached the role step with the name \<open>X\<close>.
\<close>

definition second_chat_world :: world where
  "second_chat_world = snd (process_name (str ''X'') (world_of facilitator_db))"

text \<open>A store whose writes fail: each operation reports failure and changes nothing.\<close>

definition failing_create_user ::
  "user_id \<Rightarrow> pystr \<Rightarrow> pystr \<Rightarrow> database \<Rightarrow> bool \<times> database" where
  "failing_create_user uid nm rl db = (False, db)"

definition failing_create_group ::
  "group_id \<Rightarrow> pystr \<Rightarrow> pystr \<Rightarrow> pystr \<Rightarrow> user_id \<Rightarrow> int \<Rightarrow> database \<Rightarrow> bool \<times> database" where
  "failing_create_group gid nm th descr creator mx db = (False, db)"

section \<open>Theorems about the store\<close>

lemma collect_activities_filter:
  "collect_activities ugs kvs acc =
     acc @ filter (\<lambda>a. activity_group_id a \<in> set ugs \<and> status a = (str ''scheduled'')) (map snd kvs)"
  by (induction ugs kvs acc rule: collect_activities.induct) simp_all

text \<open>
  Claim C10. For a user id that is not in the store \<open>get_user_activities\<close> returns the
  empty list; for a user in the store it returns, in the order of the activity
  dictionary, exactly the stored activities whose group id is in the user's group list
  and whose status is \<open>"scheduled"\<close>. The function is total: it has a value on every
  store and every id.
\<close>

theorem get_user_activities_spec:
  "get_user_activities uid db =
     (case users db uid of
        None \<Rightarrow> []
      | Some u \<Rightarrow>
          filter (\<lambda>a. activity_group_id a \<in> set (user_groups u) \<and> status a = (str ''scheduled''))
                 (map snd (activities db)))"
  by (simp add: get_user_activities_def collect_activities_filter split: option.split)

lemma str_eq_iff [simp]: "str a = str b \<longleftrightarrow> a = b"
proof -
  have "inj (of_char :: char \<Rightarrow> nat)"
    by (rule inj_on_inverseI [where g = char_of]) simp
  then show ?thesis
    by (simp add: str_def inj_map_eq_map)
qed

lemmas store_defs = add_user_to_group_def create_group_def create_user_def init_database_def
  get_group_def get_user_def Let_def

lemmas py_int_eval = py_int_def strip_with_def py_isspace_def to_ascii_def is_digit_def
  digit_val_def max_str_digits_def str_def

lemmas unicode_eval = py_unicode_isspace_def py_unicode_todecimal_def decimal_zeros_def

lemma get_user_update_last_active:
  "get_user uid' (update_last_active now uid db) =
     (if uid' = uid then map_option (\<lambda>u. u\<lparr>user_last_active := now\<rparr>) (get_user uid db)
      else get_user uid' db)"
  by (simp add: get_user_def update_last_active_def split: option.split)

lemma add_user_to_group_present:
  assumes "get_group gid db = Some g" "get_user uid db = Some u"
  shows "add_user_to_group uid gid db =
     (True,
      db\<lparr>groups := (if uid \<in> set (members g) then groups db
                     else AList.update gid (g\<lparr>members := members g @ [uid]\<rparr>) (groups db)),
         users := (if gid \<in> set (user_groups u) then users db
                    else (users db)(uid \<mapsto> u\<lparr>user_groups := user_groups u @ [gid]\<rparr>))\<rparr>)"
  using assms by (simp add: add_user_to_group_def get_group_def get_user_def Let_def)

text \<open>Calling \<open>add_user_to_group\<close> a second time gives the result and the store of the first call.\<close>

lemma add_user_to_group_twice:
  "add_user_to_group uid gid (snd (add_user_to_group uid gid db)) = add_user_to_group uid gid db"
proof (cases "get_group gid db")
  case None
  then show ?thesis by (simp add: add_user_to_group_def get_group_def)
next
  case (Some g)
  show ?thesis
  proof (cases "get_user uid db")
    case None
    with Some show ?thesis by (simp add: add_user_to_group_def get_group_def get_user_def)
  next
    case (Some u)
    with \<open>get_group gid db = Some g\<close> show ?thesis
      by (simp add: add_user_to_group_def get_group_def get_user_def Let_def update_conv')
  qed
qed

subsection \<open>The member bound of a group\<close>

text \<open>
  Claim C1 says that adding a user to a group whose member list already has
  \<open>max_members\<close> entries fails and changes nothing, so that no member list is ever longer
  than its bound. The code does not do this. In \<open>full_group_db\<close> group 100 has the bound 2
  and the members 1 and 2, and \<open>list_groups\<close> no longer offers a button for it. A third
  user who presses a button \<open>join_100\<close> of an earlier list is added all the same:
  \<open>add_user_to_group\<close> and \<open>join_group_callback\<close> report success, and the member list has
  three entries under a bound of two.
\<close>

theorem add_user_to_group_exceeds_max_members:
  "map_option members (get_group 100 full_group_db) = Some [1, 2]
   \<and> map_option max_members (get_group 100 full_group_db) = Some 2
   \<and> list_groups_keyboard full_group_db = []
   \<and> fst (add_user_to_group 3 100 full_group_db) = True
   \<and> map_option members (get_group 100 (snd (add_user_to_group 3 100 full_group_db)))
       = Some [1, 2, 3]
   \<and> map_option max_members (get_group 100 (snd (add_user_to_group 3 100 full_group_db)))
       = Some 2
   \<and> fst (join_group_callback 3 (str ''join_100'') (world_of full_group_db)) = Inr ()
   \<and> outbox (snd (join_group_callback 3 (str ''join_100'') (world_of full_group_db)))
       = [JoinedGroup (str ''G'')]
   \<and> map_option members
        (get_group 100 (store (snd (join_group_callback 3 (str ''join_100'') (world_of full_group_db)))))
       = Some [1, 2, 3]"
  by (simp add: full_group_db_def world_of_def store_defs list_groups_keyboard_def
      get_all_groups_def join_group_callback_def py_int_eval reply_text_def)

subsection \<open>Creating a user whose id is in the store\<close>

text \<open>
  The entry handler of the registration turns a registered user away: for an id that is
  in the store, \<open>start\<close> returns \<open>END\<close>, replies that the user is registered already, and
  leaves the user's record as it was but for its \<open>last_active\<close> time stamp.
\<close>

lemma start_registered_user:
  assumes "get_user uid (store w) = Some u"
  shows "fst (start now uid w) = Inr END
       \<and> get_user uid (store (snd (start now uid w))) = Some (u\<lparr>user_last_active := now\<rparr>)
       \<and> user_data (snd (start now uid w)) = user_data w
       \<and> outbox (snd (start now uid w)) = outbox w @ [AlreadyRegistered (user_name u) (role u)]"
  using assms
  by (simp add: get_user_def start_def update_last_active_def reply_text_def Let_def)

text \<open>
  Claim C2 says that \<open>create_user\<close> with an id that is in the store fails and leaves the
  stored record, with its role and its group list, unchanged. The code does not do this.
  In \<open>facilitator_db\<close> user 1 has the role \<open>at\<close> and the group list \<open>[100]\<close>, and \<open>start\<close>
  turns the user away. \<open>create_user\<close> with the id 1 and the role \<open>autista\<close> returns \<open>True\<close>
  all the same; afterwards the stored role is \<open>autista\<close> and the user's group list is
  empty, while group 100 still has user 1 as its member. The role step reaches this
  call without a second look at the store: in \<open>second_chat_world\<close>, \<open>process_role\<close>
  reports the registration as done and goes on to the age step.
\<close>

theorem create_user_overwrites_registered_user:
  "map_option role (get_user 1 facilitator_db) = Some (str ''at'')
   \<and> map_option user_groups (get_user 1 facilitator_db) = Some [100]
   \<and> fst (start 7 1 (world_of facilitator_db)) = Inr END
   \<and> fst (create_user 7 1 (str ''X'') (str ''autista'') [] facilitator_db) = True
   \<and> map_option role (get_user 1 (snd (create_user 7 1 (str ''X'') (str ''autista'') [] facilitator_db)))
       = Some (str ''autista'')
   \<and> map_option user_groups
        (get_user 1 (snd (create_user 7 1 (str ''X'') (str ''autista'') [] facilitator_db)))
       = Some []
   \<and> map_option members
        (get_group 100 (snd (create_user 7 1 (str ''X'') (str ''autista'') [] facilitator_db)))
       = Some [1]
   \<and> \<not> (fst (create_user 7 1 (str ''X'') (str ''autista'') [] facilitator_db) = False
        \<and> get_user 1 (snd (create_user 7 1 (str ''X'') (str ''autista'') [] facilitator_db))
            = get_user 1 facilitator_db)
   \<and> fst (process_role 7 1 (str ''autista'') second_chat_world) = Inr PROFILE_AGE
   \<and> outbox (snd (process_role 7 1 (str ''autista'') second_chat_world))
       = [AskRole (str ''X''), RegisteredAskAge]
   \<and> map_option role (get_user 1 (store (snd (process_role 7 1 (str ''autista'') second_chat_world))))
       = Some (str ''autista'')
   \<and> map_option user_groups
        (get_user 1 (store (snd (process_role 7 1 (str ''autista'') second_chat_world))))
       = Some []
   \<and> map_option members
        (get_group 100 (store (snd (process_role 7 1 (str ''autista'') second_chat_world))))
       = Some [1]"
  by (simp add: facilitator_db_def second_chat_world_def world_of_def store_defs start_def
      update_last_active_def process_role_def process_role_on_def process_name_def
      reply_text_def)

subsection \<open>Adding a user who is a member already\<close>

text \<open>
  Claim C3 as stated, refuted: in \<open>late_creator_db\<close> user 1 is in the member list of
  group 100, and the group list of user 1 is empty. \<open>add_user_to_group\<close> succeeds and
  leaves the member list as it was, but it appends 100 to the user's group list.
\<close>

theorem add_user_to_group_user_groups_counterexample:
  "map_option members (get_group 100 late_creator_db) = Some [1]
   \<and> map_option user_groups (get_user 1 late_creator_db) = Some []
   \<and> fst (add_user_to_group 1 100 late_creator_db) = True
   \<and> map_option members (get_group 100 (snd (add_user_to_group 1 100 late_creator_db))) = Some [1]
   \<and> map_option user_groups (get_user 1 (snd (add_user_to_group 1 100 late_creator_db)))
       = Some [100]
   \<and> \<not> (map_option user_groups (get_user 1 (snd (add_user_to_group 1 100 late_creator_db)))
          = map_option user_groups (get_user 1 late_creator_db))"
  by (simp add: late_creator_db_def store_defs)

text \<open>
  Claim C3 as amended. For a group \<open>g\<close> and a user \<open>u\<close> of the store with \<open>u\<close> in the member
  list of \<open>g\<close>, \<open>add_user_to_group\<close> succeeds and leaves every group, and so the member
  list of \<open>g\<close> and its length, unchanged. The group list of \<open>u\<close> is unchanged when it has
  \<open>g\<close> already, and then the whole store is unchanged; otherwise \<open>g\<close> is appended to it.
  A second call changes nothing in either case.
\<close>

theorem add_user_to_group_existing_member:
  assumes "get_group gid db = Some g" and "get_user uid db = Some u"
    and "uid \<in> set (members g)"
  shows "fst (add_user_to_group uid gid db) = True
       \<and> groups (snd (add_user_to_group uid gid db)) = groups db
       \<and> get_group gid (snd (add_user_to_group uid gid db)) = Some g
       \<and> activities (snd (add_user_to_group uid gid db)) = activities db
       \<and> get_user uid (snd (add_user_to_group uid gid db))
           = Some (if gid \<in> set (user_groups u) then u
                   else u\<lparr>user_groups := user_groups u @ [gid]\<rparr>)
       \<and> (if gid \<in> set (user_groups u) then snd (add_user_to_group uid gid db) = db
          else True)
       \<and> add_user_to_group uid gid (snd (add_user_to_group uid gid db))
           = (True, snd (add_user_to_group uid gid db))"
proof -
  have "add_user_to_group uid gid (snd (add_user_to_group uid gid db))
          = (True, snd (add_user_to_group uid gid db))"
    using add_user_to_group_twice [of uid gid db] add_user_to_group_present [OF assms(1,2)]
    by simp
  then show ?thesis
    using assms by (simp add: add_user_to_group_present [OF assms(1,2)] get_group_def get_user_def)
qed


theorem add_user_to_group_existing_member_witness:
  "get_group 100 facilitator_db
     = Some \<lparr>group_id = 100, group_name = (str ''G''), theme = (str ''t''), group_description = (str ''d''),
             created_by = 1, members = [1], max_members = 5, group_created_at = 0,
             group_last_active = 0, ai_mediator_enabled = True\<rparr>
   \<and> get_user 1 facilitator_db
       = Some \<lparr>user_id = 1, user_name = (str ''F''), role = (str ''at''), user_groups = [100],
               user_created_at = 0, user_last_active = 0, profile = None\<rparr>
   \<and> add_user_to_group 1 100 facilitator_db = (True, facilitator_db)"
proof -
  let ?g = "\<lparr>group_id = 100, group_name = (str ''G''), theme = (str ''t''), group_description = (str ''d''),
             created_by = 1, members = [1], max_members = 5, group_created_at = 0,
             group_last_active = 0, ai_mediator_enabled = True\<rparr>"
  let ?u = "\<lparr>user_id = 1, user_name = (str ''F''), role = (str ''at''), user_groups = [100],
             user_created_at = 0, user_last_active = 0, profile = None\<rparr>"
  have g: "get_group 100 facilitator_db = Some ?g"
    by (simp add: facilitator_db_def store_defs)
  have u: "get_user 1 facilitator_db = Some ?u"
    by (simp add: facilitator_db_def store_defs)
  have m: "1 \<in> set (members ?g)" by simp
  from add_user_to_group_existing_member [OF g u m]
  have "fst (add_user_to_group 1 100 facilitator_db) = True"
    and "snd (add_user_to_group 1 100 facilitator_db) = facilitator_db"
    by simp_all
  then have "add_user_to_group 1 100 facilitator_db = (True, facilitator_db)"
    by (metis prod.collapse)
  with g u show ?thesis by simp
qed

subsection \<open>Creating a group\<close>

text \<open>
  Claim C4 as stated, refuted: in the empty store no user 1 exists. \<open>create_group\<close> with
  the creator 1 returns \<open>True\<close> and stores the group with the member list \<open>[1]\<close>, and no
  user record is changed: the group record is written without the creator's record.
\<close>

theorem create_group_absent_creator_counterexample:
  "get_user 1 init_database = None
   \<and> fst (create_group 0 100 (str ''G'') (str ''t'') (str ''d'') 1 5 init_database) = True
   \<and> map_option members (get_group 100 (snd (create_group 0 100 (str ''G'') (str ''t'') (str ''d'') 1 5 init_database)))
       = Some [1]
   \<and> users (snd (create_group 0 100 (str ''G'') (str ''t'') (str ''d'') 1 5 init_database)) = users init_database
   \<and> get_user 1 (snd (create_group 0 100 (str ''G'') (str ''t'') (str ''d'') 1 5 init_database)) = None
   \<and> snd (create_group 0 100 (str ''G'') (str ''t'') (str ''d'') 1 5 init_database) \<noteq> init_database"
  by (simp add: store_defs)

text \<open>
  Claim C4 as amended. \<open>create_group\<close> always succeeds and stores the group with the
  creator as its only member. When the creator is a user of the store, the same call
  appends the group id to the creator's group list, so that the store it returns has
  both updates; when the creator is not in the store, only the group record is written.
  No other user, no other group and no activity is changed.
\<close>

theorem create_group_updates:
  "fst (create_group now gid nm th descr creator mx db) = True
   \<and> get_group gid (snd (create_group now gid nm th descr creator mx db))
       = Some \<lparr>group_id = gid, group_name = nm, theme = th, group_description = descr,
               created_by = creator, members = [creator], max_members = mx,
               group_created_at = now, group_last_active = now, ai_mediator_enabled = True\<rparr>
   \<and> (case get_user creator db of
        Some u \<Rightarrow>
          get_user creator (snd (create_group now gid nm th descr creator mx db))
            = Some (u\<lparr>user_groups := user_groups u @ [gid]\<rparr>)
      | None \<Rightarrow> users (snd (create_group now gid nm th descr creator mx db)) = users db)
   \<and> (\<forall>other. other \<noteq> creator \<longrightarrow>
         get_user other (snd (create_group now gid nm th descr creator mx db)) = get_user other db)
   \<and> (\<forall>other. other \<noteq> gid \<longrightarrow>
         get_group other (snd (create_group now gid nm th descr creator mx db)) = get_group other db)
   \<and> activities (snd (create_group now gid nm th descr creator mx db)) = activities db"
  by (simp add: create_group_def get_group_def get_user_def Let_def update_conv' split: option.split)

theorem create_group_updates_witness:
  "get_user 1 facilitator_db
     = Some \<lparr>user_id = 1, user_name = (str ''F''), role = (str ''at''), user_groups = [100],
             user_created_at = 0, user_last_active = 0, profile = None\<rparr>
   \<and> fst (create_group 3 200 (str ''H'') (str ''t'') (str ''d'') 1 4 facilitator_db) = True
   \<and> map_option members (get_group 200 (snd (create_group 3 200 (str ''H'') (str ''t'') (str ''d'') 1 4 facilitator_db)))
       = Some [1]
   \<and> get_user 1 (snd (create_group 3 200 (str ''H'') (str ''t'') (str ''d'') 1 4 facilitator_db))
       = Some \<lparr>user_id = 1, user_name = (str ''F''), role = (str ''at''), user_groups = [100, 200],
               user_created_at = 0, user_last_active = 0, profile = None\<rparr>
   \<and> get_user 2 (snd (create_group 3 200 (str ''H'') (str ''t'') (str ''d'') 1 4 facilitator_db))
       = get_user 2 facilitator_db
   \<and> get_group 100 (snd (create_group 3 200 (str ''H'') (str ''t'') (str ''d'') 1 4 facilitator_db))
       = get_group 100 facilitator_db"
proof -
  have u: "get_user 1 facilitator_db
     = Some \<lparr>user_id = 1, user_name = (str ''F''), role = (str ''at''), user_groups = [100],
             user_created_at = 0, user_last_active = 0, profile = None\<rparr>"
    by (simp add: facilitator_db_def store_defs)
  show ?thesis
    using u create_group_updates [of 3 200 "str ''H''" "str ''t''" "str ''d''" 1 4 facilitator_db]
    by simp
qed


section \<open>What \<open>py_int\<close> reads\<close>

text \<open>
  Some texts at the edges of \<open>int\<close>: the character 28 is no white space for it, the
  no-break space 160 is; fullwidth and Arabic-Indic digits are read; an underscore may
  stand between two digits only.
\<close>

lemma py_int_examples:
  "py_int (str '' 30 '') = Some 30
   \<and> py_int (28 # str ''30'') = None
   \<and> py_int (str ''30'' @ [31]) = None
   \<and> py_int (160 # str ''30'') = Some 30
   \<and> py_int [0xFF13, 0xFF10] = Some 30
   \<and> py_int [0x663, 0x660] = Some 30
   \<and> py_int (str ''-5'') = Some (- 5)
   \<and> py_int (str ''+5_0'') = Some 50
   \<and> py_int (str ''5__0'') = None
   \<and> py_int (str ''_5'') = None
   \<and> py_int (str ''5_'') = None
   \<and> py_int (str ''3.5'') = None
   \<and> py_int [] = None"
  by (simp add: py_int_eval unicode_eval)

lemma is_digit_digit_char: "d < 10 \<Longrightarrow> is_digit (digit_char d)"
  by (simp add: is_digit_def digit_char_def)

lemma digit_val_digit_char: "d < 10 \<Longrightarrow> digit_val (digit_char d) = int d"
  by (simp add: digit_val_def digit_char_def)

lemma is_digit_not_space: "is_digit c \<Longrightarrow> \<not> py_isspace c"
  by (auto simp: is_digit_def py_isspace_def)

lemma is_digit_not_sign: "is_digit c \<Longrightarrow> c \<noteq> 45 \<and> c \<noteq> 43 \<and> c \<noteq> 95"
  by (auto simp: is_digit_def)

lemma is_digit_to_ascii: "is_digit c \<Longrightarrow> to_ascii c = c"
  by (simp add: is_digit_def to_ascii_def)

lemma scan_digits_append:
  "\<forall>c \<in> set ds. is_digit c \<Longrightarrow>
   scan_digits prev acc (ds @ rest) =
     scan_digits (prev \<or> ds \<noteq> []) (foldl (\<lambda>a c. a * 10 + digit_val c) acc ds) rest"
  by (induction ds arbitrary: prev acc) auto

lemma decimal_digits: "c \<in> set (decimal n) \<Longrightarrow> is_digit c"
proof (induction n rule: decimal.induct)
  case (1 n)
  then show ?case
    by (subst (asm) (2) decimal.simps) (auto simp: is_digit_digit_char split: if_splits)
qed

lemma decimal_nonempty: "decimal n \<noteq> []"
  by (subst decimal.simps) simp

lemma decimal_value: "foldl (\<lambda>a c. a * 10 + digit_val c) 0 (decimal n) = int n"
proof (induction n rule: decimal.induct)
  case (1 n)
  show ?case
  proof (cases "n < 10")
    case True
    then show ?thesis by (subst decimal.simps) (simp add: digit_val_digit_char)
  next
    case False
    with 1 have "foldl (\<lambda>a c. a * 10 + digit_val c) 0 (decimal (n div 10)) = int (n div 10)"
      by simp
    with False show ?thesis
      by (subst decimal.simps) (simp add: digit_val_digit_char zdiv_int zmod_int)
  qed
qed

lemma decimal_length: "n < 10 ^ k \<Longrightarrow> 0 < k \<Longrightarrow> length (decimal n) \<le> k"
proof (induction n arbitrary: k rule: decimal.induct)
  case (1 n)
  show ?case
  proof (cases "n < 10")
    case True
    with 1 show ?thesis by (subst decimal.simps) simp
  next
    case False
    with "1.prems" have k: "1 < k" by (cases "k = 1") auto
    then obtain j where j: "k = Suc j" "0 < j" by (cases k) auto
    with "1.prems" have "n div 10 < 10 ^ j"
      by (simp add: less_mult_imp_div_less mult.commute)
    with "1.IH" [OF False, of j] j have "length (decimal (n div 10)) \<le> j" by simp
    with False j show ?thesis by (subst decimal.simps) simp
  qed
qed

lemma strip_digits:
  assumes "s \<noteq> []" "\<forall>c \<in> set s. is_digit c"
  shows "strip_with py_isspace s = s"
proof -
  from assms obtain c cs where s: "s = c # cs" by (cases s) auto
  with assms have "\<not> py_isspace c" by (simp add: is_digit_not_space)
  then have a: "dropWhile py_isspace s = s" by (simp add: s)
  from assms have "rev s \<noteq> []" by simp
  then obtain d ds where r: "rev s = d # ds" by (cases "rev s") auto
  then have "d \<in> set s" by (metis list.set_intros(1) set_rev)
  with assms have "\<not> py_isspace d" by (simp add: is_digit_not_space)
  then have "dropWhile py_isspace (rev s) = rev s" by (simp add: r)
  with a show ?thesis by (simp add: strip_with_def)
qed

text \<open>
  \<open>int\<close> reads the decimal numeral of a natural number as that number, unless the
  numeral has more than 4300 digits; then it refuses it.
\<close>

lemma py_int_decimal:
  "py_int (decimal n) = (if length (decimal n) \<le> max_str_digits then Some (int n) else None)"
proof -
  have d: "\<forall>c \<in> set (decimal n). is_digit c" by (simp add: decimal_digits)
  then have m: "map to_ascii (decimal n) = decimal n"
    by (simp add: is_digit_to_ascii map_idI)
  from d have f: "filter is_digit (decimal n) = decimal n" by simp
  obtain c cs where s: "decimal n = c # cs"
    using decimal_nonempty [of n] by (cases "decimal n") auto
  with d have c: "is_digit c" by simp
  have "scan_digits False 0 (decimal n @ []) = Some (int n)"
    by (subst scan_digits_append [OF d]) (simp add: decimal_value decimal_nonempty)
  then have v: "scan_digits False 0 (c # cs) = Some (int n)" by (simp add: s)
  have t: "strip_with py_isspace (map to_ascii (decimal n)) = c # cs"
    using strip_digits [OF decimal_nonempty d] s m by simp
  have l: "length (filter is_digit (c # cs)) = length (decimal n)"
    using f s by simp
  show ?thesis
    using is_digit_not_sign [OF c] v
    by (simp add: py_int_def t l del: scan_digits.simps filter.simps)
qed

lemma py_int_decimal_small: "n < 1000 \<Longrightarrow> py_int (decimal n) = Some (int n)"
  using decimal_length [of n 3] by (simp add: py_int_decimal max_str_digits_def)

section \<open>Theorems about the dialog handlers\<close>

subsection \<open>A rejected number asks again\<close>

text \<open>
  Claim C5. The three steps with a numeric validator are the age (5 to 100), the
  largest number of members of a group (2 to 50) and the duration of an activity
  (5 to 180). When the text is not a number, or the number is outside the range, the
  handler returns the state of its own step, and the world it returns is the world it
  was given with one more reply: \<open>user_data\<close> and the store are unchanged. This holds for
  every store operation that the last two steps could call.
\<close>

theorem validation_rejection_reprompts:
  "((case py_int txt of None \<Rightarrow> True | Some n \<Rightarrow> n < 5 \<or> 100 < n) \<longrightarrow>
      process_profile_age txt w =
        (Inr PROFILE_AGE,
         w\<lparr>outbox := outbox w @ [case py_int txt of None \<Rightarrow> AgeNotNumber | Some n \<Rightarrow> AgeOutOfRange]\<rparr>))
   \<and> ((case py_int txt of None \<Rightarrow> True | Some n \<Rightarrow> n < 2 \<or> 50 < n) \<longrightarrow>
      process_group_max_on db_create_group gid uid txt w =
        (Inr GROUP_MAX,
         w\<lparr>outbox := outbox w @
              [case py_int txt of None \<Rightarrow> GroupMaxNotNumber | Some n \<Rightarrow> GroupMaxOutOfRange]\<rparr>))
   \<and> ((case py_int txt of None \<Rightarrow> True | Some n \<Rightarrow> n < 5 \<or> 180 < n) \<longrightarrow>
      process_activity_duration_on db_create_activity uid txt w =
        (Inr ACTIVITY_DURATION,
         w\<lparr>outbox := outbox w @
              [case py_int txt of None \<Rightarrow> DurationNotNumber | Some n \<Rightarrow> DurationOutOfRange]\<rparr>))"
  by (auto simp: process_profile_age_def process_group_max_on_def
      process_activity_duration_on_def reply_text_def split: option.splits)

theorem validation_rejection_reprompts_witness:
  "py_int (str ''abc'') = None
   \<and> process_profile_age (str ''abc'') fresh_world
       = (Inr PROFILE_AGE, fresh_world\<lparr>outbox := outbox fresh_world @ [AgeNotNumber]\<rparr>)
   \<and> process_group_max 0 100 1 (str ''abc'') group_answers_world
       = (Inr GROUP_MAX,
          group_answers_world\<lparr>outbox := outbox group_answers_world @ [GroupMaxNotNumber]\<rparr>)
   \<and> process_activity_duration 0 (str ''1.5'') 1 (str ''abc'') fresh_world
       = (Inr ACTIVITY_DURATION, fresh_world\<lparr>outbox := outbox fresh_world @ [DurationNotNumber]\<rparr>)
   \<and> py_int (str ''200'') = Some 200
   \<and> process_profile_age (str ''200'') fresh_world
       = (Inr PROFILE_AGE, fresh_world\<lparr>outbox := outbox fresh_world @ [AgeOutOfRange]\<rparr>)
   \<and> process_group_max 0 100 1 (str ''200'') group_answers_world
       = (Inr GROUP_MAX,
          group_answers_world\<lparr>outbox := outbox group_answers_world @ [GroupMaxOutOfRange]\<rparr>)
   \<and> process_activity_duration 0 (str ''1.5'') 1 (str ''200'') fresh_world
       = (Inr ACTIVITY_DURATION, fresh_world\<lparr>outbox := outbox fresh_world @ [DurationOutOfRange]\<rparr>)"
proof -
  have a: "py_int (str ''abc'') = None" by (simp add: py_int_eval)
  have b: "py_int (str ''200'') = Some 200" by (simp add: py_int_eval)
  show ?thesis
    using validation_rejection_reprompts [of "str ''abc''" fresh_world "create_group 0" 100 1
        "\<lambda>gid ty ttl descr creator dur. create_activity 0 (str ''1.5'') gid ty ttl descr creator None dur"]
      validation_rejection_reprompts [of "str ''abc''" group_answers_world "create_group 0" 100 1
        "\<lambda>gid ty ttl descr creator dur. create_activity 0 (str ''1.5'') gid ty ttl descr creator None dur"]
      validation_rejection_reprompts [of "str ''200''" fresh_world "create_group 0" 100 1
        "\<lambda>gid ty ttl descr creator dur. create_activity 0 (str ''1.5'') gid ty ttl descr creator None dur"]
      validation_rejection_reprompts [of "str ''200''" group_answers_world "create_group 0" 100 1
        "\<lambda>gid ty ttl descr creator dur. create_activity 0 (str ''1.5'') gid ty ttl descr creator None dur"]
    by (simp add: a b process_group_max_def process_activity_duration_def)
qed

text \<open>The converse: a numeric step returns its own state only on a rejected text.\<close>

lemma reprompt_only_if_rejected:
  "(fst (process_profile_age txt w) = Inr PROFILE_AGE
      \<longleftrightarrow> (case py_int txt of None \<Rightarrow> True | Some n \<Rightarrow> n < 5 \<or> 100 < n))
   \<and> (fst (process_group_max_on db_create_group gid uid txt w) = Inr GROUP_MAX
      \<longleftrightarrow> (case py_int txt of None \<Rightarrow> True | Some n \<Rightarrow> n < 2 \<or> 50 < n))
   \<and> (fst (process_activity_duration_on db_create_activity uid txt w) = Inr ACTIVITY_DURATION
      \<longleftrightarrow> (case py_int txt of None \<Rightarrow> True | Some n \<Rightarrow> n < 5 \<or> 180 < n))"
  by (auto simp: process_profile_age_def process_group_max_on_def
      process_activity_duration_on_def reply_text_def Let_def split: option.splits prod.splits)

subsection \<open>The age step\<close>

text \<open>
  Claim C6. In the age step the text \<open>abc\<close>, which is not a number, and the text \<open>200\<close>,
  which is outside 5 to 100, each give the age state again and store nothing; the text
  \<open>30\<close> stores the age 30 and gives the gender state. In general: a text that \<open>int\<close>
  rejects, or reads as a number below 5 or above 100, gives the age state again with
  \<open>user_data\<close> unchanged, and a text that \<open>int\<close> reads as a number \<open>n\<close> from 5 to 100 stores
  \<open>n\<close> under \<open>profile_age\<close> and gives the gender state. The decimal numeral of every
  natural number from 5 to 100 is such a text, and the numeral of every other natural
  number gives the age state again (as a number out of range, or, with more than 4300
  digits, as a text that \<open>int\<close> rejects).
\<close>

theorem process_profile_age_cases:
  "process_profile_age (str ''abc'') w = (Inr PROFILE_AGE, w\<lparr>outbox := outbox w @ [AgeNotNumber]\<rparr>)
   \<and> process_profile_age (str ''200'') w = (Inr PROFILE_AGE, w\<lparr>outbox := outbox w @ [AgeOutOfRange]\<rparr>)
   \<and> process_profile_age (str ''30'') w =
       (Inr PROFILE_GENDER,
        w\<lparr>user_data := (user_data w)\<lparr>ud_profile_age := Some 30\<rparr>,
          outbox := outbox w @ [AskGender]\<rparr>)
   \<and> (py_int txt = None \<longrightarrow>
        process_profile_age txt w = (Inr PROFILE_AGE, w\<lparr>outbox := outbox w @ [AgeNotNumber]\<rparr>))
   \<and> (\<forall>n. py_int txt = Some n \<and> (n < 5 \<or> 100 < n) \<longrightarrow>
        process_profile_age txt w = (Inr PROFILE_AGE, w\<lparr>outbox := outbox w @ [AgeOutOfRange]\<rparr>))
   \<and> (\<forall>n. py_int txt = Some n \<and> 5 \<le> n \<and> n \<le> 100 \<longrightarrow>
        process_profile_age txt w =
          (Inr PROFILE_GENDER,
           w\<lparr>user_data := (user_data w)\<lparr>ud_profile_age := Some n\<rparr>,
             outbox := outbox w @ [AskGender]\<rparr>))
   \<and> (\<forall>k. 5 \<le> k \<and> k \<le> 100 \<longrightarrow>
        process_profile_age (decimal k) w =
          (Inr PROFILE_GENDER,
           w\<lparr>user_data := (user_data w)\<lparr>ud_profile_age := Some (int k)\<rparr>,
             outbox := outbox w @ [AskGender]\<rparr>))
   \<and> (\<forall>k. k < 5 \<or> 100 < k \<longrightarrow>
        process_profile_age (decimal k) w =
          (Inr PROFILE_AGE,
           w\<lparr>outbox := outbox w @
                [if length (decimal k) \<le> max_str_digits then AgeOutOfRange else AgeNotNumber]\<rparr>))"
proof -
  have a: "py_int (str ''abc'') = None" by (simp add: py_int_eval)
  have b: "py_int (str ''200'') = Some 200" by (simp add: py_int_eval)
  have c: "py_int (str ''30'') = Some 30" by (simp add: py_int_eval)
  have d: "length (decimal k) \<le> max_str_digits" if "k \<le> 100" for k
    using that decimal_length [of k 3] by (simp add: max_str_digits_def)
  show ?thesis
    by (auto simp: a b c d py_int_decimal process_profile_age_def reply_text_def)
qed

theorem process_profile_age_cases_witness:
  "py_int (str '' 42 '') = Some 42
   \<and> process_profile_age (str '' 42 '') fresh_world
       = (Inr PROFILE_GENDER,
          fresh_world\<lparr>user_data := (user_data fresh_world)\<lparr>ud_profile_age := Some 42\<rparr>,
                      outbox := outbox fresh_world @ [AskGender]\<rparr>)
   \<and> py_int (str ''4'') = Some 4
   \<and> process_profile_age (str ''4'') fresh_world
       = (Inr PROFILE_AGE, fresh_world\<lparr>outbox := outbox fresh_world @ [AgeOutOfRange]\<rparr>)
   \<and> py_int (str ''3.5'') = None
   \<and> process_profile_age (str ''3.5'') fresh_world
       = (Inr PROFILE_AGE, fresh_world\<lparr>outbox := outbox fresh_world @ [AgeNotNumber]\<rparr>)
   \<and> py_int (28 # str ''30'') = None
   \<and> process_profile_age (28 # str ''30'') fresh_world
       = (Inr PROFILE_AGE, fresh_world\<lparr>outbox := outbox fresh_world @ [AgeNotNumber]\<rparr>)
   \<and> py_int [0xFF13, 0xFF10] = Some 30
   \<and> process_profile_age [0xFF13, 0xFF10] fresh_world
       = (Inr PROFILE_GENDER,
          fresh_world\<lparr>user_data := (user_data fresh_world)\<lparr>ud_profile_age := Some 30\<rparr>,
                      outbox := outbox fresh_world @ [AskGender]\<rparr>)
   \<and> process_profile_age (decimal 100) fresh_world
       = (Inr PROFILE_GENDER,
          fresh_world\<lparr>user_data := (user_data fresh_world)\<lparr>ud_profile_age := Some 100\<rparr>,
                      outbox := outbox fresh_world @ [AskGender]\<rparr>)
   \<and> process_profile_age (decimal 101) fresh_world
       = (Inr PROFILE_AGE, fresh_world\<lparr>outbox := outbox fresh_world @ [AgeOutOfRange]\<rparr>)"
proof -
  have a: "py_int (str '' 42 '') = Some 42" by (simp add: py_int_eval)
  have b: "py_int (str ''4'') = Some 4" by (simp add: py_int_eval)
  have c: "py_int (str ''3.5'') = None" by (simp add: py_int_eval)
  have d: "py_int (28 # str ''30'') = None" by (simp add: py_int_eval)
  have e: "py_int [0xFF13, 0xFF10] = Some 30" by (simp add: py_int_eval unicode_eval)
  have f: "length (decimal 101) \<le> max_str_digits"
    using decimal_length [of 101 3] by (simp add: max_str_digits_def)
  show ?thesis
    using process_profile_age_cases [of fresh_world "str '' 42 ''"]
      process_profile_age_cases [of fresh_world "str ''4''"]
      process_profile_age_cases [of fresh_world "str ''3.5''"]
      process_profile_age_cases [of fresh_world "28 # str ''30''"]
      process_profile_age_cases [of fresh_world "[0xFF13, 0xFF10]"]
    by (simp add: a b c d e f)
qed

subsection \<open>The entry of the group dialog\<close>

text \<open>
  Claim C7. When the sender of \<open>/criar_grupo\<close> is not in the store, or is in the store
  with a role other than \<open>at\<close>, \<open>create_group_start\<close> replies with the rejection and
  returns \<open>END\<close>. It writes nothing to \<open>user_data\<close>; in the store only the sender's
  \<open>last_active\<close> is set. The conversation handler of the group dialog therefore stays
  without a conversation for the sender, and it does not take the sender's next text
  message: \<open>process_group_name\<close> is not run on it.
\<close>

theorem create_group_start_rejects:
  assumes "case get_user uid (store w) of None \<Rightarrow> True | Some u \<Rightarrow> role u \<noteq> (str ''at'')"
  shows "fst (create_group_start now uid w) = Inr END
       \<and> snd (create_group_start now uid w) =
           w\<lparr>store := update_last_active now uid (store w),
             outbox := outbox w @
               [case get_user uid (store w) of
                  None \<Rightarrow> NeedRegistration | Some u \<Rightarrow> OnlyATCreateGroups]\<rparr>
       \<and> user_data (snd (create_group_start now uid w)) = user_data w
       \<and> group_conv_handler now gid uid (Command ''criar_grupo'') (None, w)
           = Some (None, snd (create_group_start now uid w))
       \<and> group_conv_handler now' gid' uid (TextMessage t) (None, snd (create_group_start now uid w))
           = None"
  using assms
  by (auto simp: create_group_start_def get_user_update_last_active reply_text_def
      group_conv_handler_def conv_step_def next_conv_def Let_def split: option.splits)

theorem create_group_start_rejects_witness:
  "get_user 1 (store fresh_world) = None
   \<and> create_group_start 5 1 fresh_world
       = (Inr END, fresh_world\<lparr>outbox := [NeedRegistration]\<rparr>)
   \<and> map_option role (get_user 2 (store (world_of full_group_db))) = Some (str ''autista'')
   \<and> fst (create_group_start 5 2 (world_of full_group_db)) = Inr END
   \<and> outbox (snd (create_group_start 5 2 (world_of full_group_db))) = [OnlyATCreateGroups]
   \<and> user_data (snd (create_group_start 5 2 (world_of full_group_db))) = empty_user_data
   \<and> group_conv_handler 5 100 2 (Command ''criar_grupo'') (None, world_of full_group_db)
       = Some (None, snd (create_group_start 5 2 (world_of full_group_db)))
   \<and> group_conv_handler 6 100 2 (TextMessage (str ''My group''))
        (None, snd (create_group_start 5 2 (world_of full_group_db))) = None"
proof -
  have a: "get_user 1 (store fresh_world) = None"
    by (simp add: fresh_world_def store_defs)
  have b: "get_user 2 (store (world_of full_group_db))
     = Some \<lparr>user_id = 2, user_name = (str ''A''), role = (str ''autista''), user_groups = [100],
             user_created_at = 0, user_last_active = 0,
             profile = Some (default_profile [])\<rparr>"
    by (simp add: world_of_def full_group_db_def store_defs)
  have c: "update_last_active 5 1 (store fresh_world) = store fresh_world"
    using a by (simp add: update_last_active_def get_user_def)
  have ha: "case get_user 1 (store fresh_world) of None \<Rightarrow> True | Some u \<Rightarrow> role u \<noteq> (str ''at'')"
    using a by simp
  have hb: "case get_user 2 (store (world_of full_group_db)) of
              None \<Rightarrow> True | Some u \<Rightarrow> role u \<noteq> (str ''at'')"
    using b by simp
  note ra = create_group_start_rejects [OF ha, of 5 100 6 100 "str ''My group''"]
  note rb = create_group_start_rejects [OF hb, of 5 100 6 100 "str ''My group''"]
  have e: "create_group_start 5 1 fresh_world
       = (Inr END, fresh_world\<lparr>outbox := [NeedRegistration]\<rparr>)"
    using ra a c by (simp add: prod_eq_iff fresh_world_def)
  have f: "map_option role (get_user 2 (store (world_of full_group_db))) = Some (str ''autista'')"
    using b by simp
  have g: "outbox (snd (create_group_start 5 2 (world_of full_group_db))) = [OnlyATCreateGroups]"
    using rb b by (simp add: world_of_def)
  have h: "user_data (snd (create_group_start 5 2 (world_of full_group_db))) = empty_user_data"
    using rb by (simp add: world_of_def)
  from a e f g h rb show ?thesis by blast
qed

subsection \<open>A failed commit ends the dialog\<close>

text \<open>
  Claim C8 as stated, refuted. The claim says that after a failed commit the session is
  cleared. With a store whose \<open>create_group\<close> fails, \<open>process_group_max\<close> on the text \<open>10\<close>
  returns \<open>END\<close>, and the answers of the dialog are all still in \<open>user_data\<close>, the last one
  among them: the conversation is ended, the answer map is not cleared.
\<close>

theorem commit_failure_keeps_answers_counterexample:
  "fst (process_group_max_on failing_create_group 100 1 (str ''10'') group_answers_world) = Inr END
   \<and> ud_group_name
        (user_data (snd (process_group_max_on failing_create_group 100 1 (str ''10'')
                           group_answers_world)))
       = Some (str ''G'')
   \<and> ud_group_theme
        (user_data (snd (process_group_max_on failing_create_group 100 1 (str ''10'')
                           group_answers_world)))
       = Some (str ''t'')
   \<and> ud_group_desc
        (user_data (snd (process_group_max_on failing_create_group 100 1 (str ''10'')
                           group_answers_world)))
       = Some (str ''d'')
   \<and> ud_group_max
        (user_data (snd (process_group_max_on failing_create_group 100 1 (str ''10'')
                           group_answers_world)))
       = Some 10
   \<and> user_data (snd (process_group_max_on failing_create_group 100 1 (str ''10'')
                        group_answers_world))
       \<noteq> empty_user_data"
proof -
  have c: "py_int (str ''10'') = Some 10" by (simp add: py_int_eval)
  have n: "ud_group_max empty_user_data = None" by (simp add: empty_user_data_def)
  have r: "ud_group_max
        (user_data (snd (process_group_max_on failing_create_group 100 1 (str ''10'')
                           group_answers_world)))
       = Some 10"
    by (simp add: c process_group_max_on_def failing_create_group_def group_answers_world_def
        process_group_name_def process_group_theme_def process_group_desc_def world_of_def
        reply_text_def)
  from r n have "user_data (snd (process_group_max_on failing_create_group 100 1 (str ''10'')
                        group_answers_world))
       \<noteq> empty_user_data"
    by auto
  then show ?thesis
    by (simp add: c process_group_max_on_def failing_create_group_def group_answers_world_def
        process_group_name_def process_group_theme_def process_group_desc_def world_of_def
        reply_text_def)
qed

text \<open>
  Claim C8 as amended. When the commit of the last step fails, the handler still returns
  \<open>END\<close>, so the conversation of the sender is ended and no step is run again, and its
  reply is the one that tells the user to try again. The answers are not cleared:
  \<open>user_data\<close> is what it was before the step, with the answer of the last step added.
  This holds for every implementation of the store operation: for \<open>process_role\<close> when
  \<open>create_user\<close> reports failure, for \<open>process_profile_communication\<close> (which returns \<open>END\<close>
  whatever the result is) when \<open>update_user_profile\<close> reports failure, and for
  \<open>process_group_max\<close>, after the number has passed validation, when \<open>create_group\<close>
  reports failure.
\<close>

theorem commit_failure_ends_dialog:
  "(ud_name (user_data w) = Some nm \<and> fst (db_create_user uid nm data (store w)) = False \<longrightarrow>
      fst (process_role_on db_create_user uid data w) = Inr END
      \<and> outbox (snd (process_role_on db_create_user uid data w)) = outbox w @ [RegisterFailed]
      \<and> user_data (snd (process_role_on db_create_user uid data w))
          = (user_data w)\<lparr>ud_role := Some data\<rparr>)
   \<and> fst (process_profile_communication_on db_update_user_profile uid data w) = Inr END
   \<and> user_data (snd (process_profile_communication_on db_update_user_profile uid data w))
       = (user_data w)\<lparr>ud_profile_communication := Some data\<rparr>
   \<and> (fst (db_update_user_profile uid
              (profile_data_of ((user_data w)\<lparr>ud_profile_communication := Some data\<rparr>)) (store w))
        = False \<longrightarrow>
      outbox (snd (process_profile_communication_on db_update_user_profile uid data w))
        = outbox w @ [ProfileSaveFailed])
   \<and> (py_int txt = Some mx \<and> 2 \<le> mx \<and> mx \<le> 50 \<and> ud_group_name (user_data w) = Some gn
       \<and> ud_group_theme (user_data w) = Some th \<and> ud_group_desc (user_data w) = Some descr
       \<and> fst (db_create_group gid gn th descr uid mx (store w)) = False \<longrightarrow>
      fst (process_group_max_on db_create_group gid uid txt w) = Inr END
      \<and> outbox (snd (process_group_max_on db_create_group gid uid txt w))
          = outbox w @ [GroupCreateFailed]
      \<and> user_data (snd (process_group_max_on db_create_group gid uid txt w))
          = (user_data w)\<lparr>ud_group_max := Some mx\<rparr>)
   \<and> next_conv cur (Inr END) = None"
  by (auto simp: process_role_on_def process_profile_communication_on_def
      process_group_max_on_def reply_text_def next_conv_def Let_def split: prod.splits)

theorem commit_failure_ends_dialog_witness:
  "ud_name (user_data named_world) = Some (str ''Ana'')
   \<and> fst (failing_create_user 1 (str ''Ana'') (str ''at'') (store named_world)) = False
   \<and> fst (process_role_on failing_create_user 1 (str ''at'') named_world) = Inr END
   \<and> outbox (snd (process_role_on failing_create_user 1 (str ''at'') named_world))
       = [AskRole (str ''Ana''), RegisterFailed]
   \<and> ud_name (user_data (snd (process_role_on failing_create_user 1 (str ''at'') named_world)))
       = Some (str ''Ana'')
   \<and> fst (update_user_profile 1
            (profile_data_of
               ((user_data fresh_world)\<lparr>ud_profile_communication := Some (str ''direta'')\<rparr>))
            (store fresh_world)) = False
   \<and> fst (process_profile_communication 1 (str ''direta'') fresh_world) = Inr END
   \<and> outbox (snd (process_profile_communication 1 (str ''direta'') fresh_world))
       = [ProfileSaveFailed]
   \<and> py_int (str ''10'') = Some 10
   \<and> fst (process_group_max_on failing_create_group 100 1 (str ''10'') group_answers_world) = Inr END
   \<and> outbox (snd (process_group_max_on failing_create_group 100 1 (str ''10'') group_answers_world))
       = [AskGroupTheme (str ''G''), AskGroupDesc (str ''t''), AskGroupMax, GroupCreateFailed]
   \<and> user_data (snd (process_group_max_on failing_create_group 100 1 (str ''10'')
                        group_answers_world))
       = (user_data group_answers_world)\<lparr>ud_group_max := Some 10\<rparr>"
proof -
  have a: "ud_name (user_data named_world) = Some (str ''Ana'')"
    and a': "outbox named_world = [AskRole (str ''Ana'')]"
    by (simp_all add: named_world_def process_name_def fresh_world_def reply_text_def)
  have b: "fst (update_user_profile 1
            (profile_data_of
               ((user_data fresh_world)\<lparr>ud_profile_communication := Some (str ''direta'')\<rparr>))
            (store fresh_world)) = False"
    and b': "outbox fresh_world = []"
    by (simp_all add: update_user_profile_def fresh_world_def init_database_def)
  have c: "py_int (str ''10'') = Some 10" by (simp add: py_int_eval)
  have d: "ud_group_name (user_data group_answers_world) = Some (str ''G'')"
    "ud_group_theme (user_data group_answers_world) = Some (str ''t'')"
    "ud_group_desc (user_data group_answers_world) = Some (str ''d'')"
    "outbox group_answers_world = [AskGroupTheme (str ''G''), AskGroupDesc (str ''t''), AskGroupMax]"
    by (simp_all add: group_answers_world_def process_group_name_def process_group_theme_def
        process_group_desc_def world_of_def reply_text_def)
  show ?thesis
    using a a' b b' c d
      commit_failure_ends_dialog [of named_world "str ''Ana''" failing_create_user 1 "str ''at''"
        update_user_profile "str ''10''" 10 "str ''G''" "str ''t''" "str ''d''"
        failing_create_group 100 None]
      commit_failure_ends_dialog [of fresh_world "str ''Ana''" failing_create_user 1
        "str ''direta''" update_user_profile "str ''10''" 10 "str ''G''" "str ''t''" "str ''d''"
        failing_create_group 100 None]
      commit_failure_ends_dialog [of group_answers_world "str ''Ana''" failing_create_user 1
        "str ''at''" update_user_profile "str ''10''" 10 "str ''G''" "str ''t''" "str ''d''"
        failing_create_group 100 None]
    by (simp add: failing_create_user_def failing_create_group_def
        process_profile_communication_def)
qed

subsection \<open>The role step\<close>

text \<open>
  Claim C9. With the name of the name step in \<open>user_data\<close>, \<open>process_role\<close> stores the user
  with that name and the chosen role, and then returns the age state of the profile
  dialog when the role is \<open>autista\<close>, and \<open>END\<close> for every other role.
\<close>

theorem process_role_commits_and_branches:
  assumes "ud_name (user_data w) = Some nm"
  shows "fst (process_role now uid data w)
           = Inr (if data = (str ''autista'') then PROFILE_AGE else END)
       \<and> get_user uid (store (snd (process_role now uid data w)))
           = Some \<lparr>user_id = uid, user_name = nm, role = data, user_groups = [],
                   user_created_at = now, user_last_active = now,
                   profile = (if data = (str ''autista'') then Some (default_profile []) else None)\<rparr>
       \<and> outbox (snd (process_role now uid data w))
           = outbox w @ [if data = (str ''autista'') then RegisteredAskAge else RegisteredAT]"
  using assms
  by (simp add: process_role_def process_role_on_def create_user_def get_user_def
      reply_text_def Let_def)

theorem process_role_commits_and_branches_witness:
  "ud_name (user_data named_world) = Some (str ''Ana'')
   \<and> fst (process_role 3 1 (str ''autista'') named_world) = Inr PROFILE_AGE
   \<and> map_option role (get_user 1 (store (snd (process_role 3 1 (str ''autista'') named_world))))
       = Some (str ''autista'')
   \<and> fst (process_role 3 1 (str ''at'') named_world) = Inr END
   \<and> get_user 1 (store (snd (process_role 3 1 (str ''at'') named_world)))
       = Some \<lparr>user_id = 1, user_name = (str ''Ana''), role = (str ''at''), user_groups = [],
               user_created_at = 3, user_last_active = 3, profile = None\<rparr>"
proof -
  have a: "ud_name (user_data named_world) = Some (str ''Ana'')"
    by (simp add: named_world_def process_name_def fresh_world_def reply_text_def)
  show ?thesis
    using a process_role_commits_and_branches [OF a, of 3 1 "str ''autista''"]
      process_role_commits_and_branches [OF a, of 3 1 "str ''at''"]
    by simp
qed


end
